theory Spec2Isabelle
  imports Main
begin

section \<open>Strings and paths\<close>

text \<open>
  The converter builds its output path with \<^verbatim>\<open>str.lower\<close>, \<^verbatim>\<open>os.path.basename\<close>,
  \<^verbatim>\<open>os.path.splitext\<close> and \<^verbatim>\<open>os.path.join\<close>. They are modelled after CPython's
  \<^verbatim>\<open>posixpath\<close> and \<^verbatim>\<open>genericpath\<close> (separator \<^verbatim>\<open>/\<close>, extension separator \<^verbatim>\<open>.\<close>).
  A path is a \<^typ>\<open>string\<close>.

  \<^verbatim>\<open>str.lower\<close> is modelled on the ASCII letters; every other character is left as it is.
  No character outside \<^verbatim>\<open>A-Z\<close> is lower-cased by Python to one of the letters of
  \<^verbatim>\<open>webp\<close>, \<^verbatim>\<open>png\<close>, \<^verbatim>\<open>jpeg\<close>, \<^verbatim>\<open>jpg\<close>, so the format dispatch below does not
  depend on this restriction.
\<close>

definition lower_char :: "char \<Rightarrow> char" where
  "lower_char c =
     (case map_of (zip ''ABCDEFGHIJKLMNOPQRSTUVWXYZ'' ''abcdefghijklmnopqrstuvwxyz'') c of
        None \<Rightarrow> c
      | Some l \<Rightarrow> l)"

definition lower :: "string \<Rightarrow> string" where
  "lower s = map lower_char s"

text \<open>\<^verbatim>\<open>p.rfind(c)\<close>: the index of the last occurrence of \<open>c\<close>, or \<open>-1\<close>.\<close>

definition rfind :: "string \<Rightarrow> char \<Rightarrow> int" where
  "rfind p c =
     (if c \<in> set p
      then int (length p) - 1 - int (length (takeWhile (\<lambda>x. x \<noteq> c) (rev p)))
      else - 1)"

text \<open>
  \<^verbatim>\<open>
  def basename(p):
      i = p.rfind('/') + 1
      return p[i:]
  \<close>
\<close>

definition basename :: "string \<Rightarrow> string" where
  "basename p = (let i = rfind p CHR ''/'' + 1 in drop (nat i) p)"

text \<open>
  \<^verbatim>\<open>
  def _splitext(p, sep, altsep, extsep):
      sepIndex = p.rfind(sep)
      dotIndex = p.rfind(extsep)
      if dotIndex > sepIndex:
          # skip all leading dots
          filenameIndex = sepIndex + 1
          while filenameIndex < dotIndex:
              if p[filenameIndex:filenameIndex+1] != extsep:
                  return p[:dotIndex], p[dotIndex:]
              filenameIndex += 1
      return p, p[:0]
  \<close>
  The loop reads \<open>p\<close> only below \<open>dotIndex\<close>, which is an index of \<open>p\<close>.
\<close>

function splitext_loop :: "string \<Rightarrow> nat \<Rightarrow> nat \<Rightarrow> string \<times> string" where
  "splitext_loop p filenameIndex dotIndex =
     (if filenameIndex < dotIndex
      then (if p ! filenameIndex \<noteq> CHR ''.''
            then (take dotIndex p, drop dotIndex p)
            else splitext_loop p (filenameIndex + 1) dotIndex)
      else (p, []))"
  by pat_completeness auto
termination
  by (relation "measure (\<lambda>(p, filenameIndex, dotIndex). dotIndex - filenameIndex)") auto

declare splitext_loop.simps [simp del]

definition splitext :: "string \<Rightarrow> string \<times> string" where
  "splitext p =
     (let sepIndex = rfind p CHR ''/'';
          dotIndex = rfind p CHR ''.''
      in if dotIndex > sepIndex
         then splitext_loop p (nat (sepIndex + 1)) (nat dotIndex)
         else (p, []))"

text \<open>
  \<^verbatim>\<open>os.path.join(a, b)\<close> with one component \<open>b\<close>:
  \<^verbatim>\<open>
      if b.startswith(sep):               path = b
      elif not path or path.endswith(sep): path += b
      else:                                path += sep + b
  \<close>
\<close>

definition startswith_sep :: "string \<Rightarrow> bool" where
  "startswith_sep b = (case b of [] \<Rightarrow> False | c # _ \<Rightarrow> c = CHR ''/'')"

definition endswith_sep :: "string \<Rightarrow> bool" where
  "endswith_sep a = (a \<noteq> [] \<and> last a = CHR ''/'')"

definition join :: "string \<Rightarrow> string \<Rightarrow> string" where
  "join a b =
     (if startswith_sep b then b
      else if a = [] \<or> endswith_sep a then a @ b
      else a @ ''/'' @ b)"

subsection \<open>The output path of a conversion\<close>

text \<open>
  Lines 17 and 18 of \<^verbatim>\<open>convert_image\<close>:
  \<^verbatim>\<open>
  output_filename = os.path.splitext(os.path.basename(input_path))[0] + f".{output_format.lower()}"
  final_output_path = os.path.join(output_path, output_filename)
  \<close>
\<close>

definition output_filename :: "string \<Rightarrow> string \<Rightarrow> string" where
  "output_filename input_path output_format =
     fst (splitext (basename input_path)) @ ''.'' @ lower output_format"

definition final_output_path :: "string \<Rightarrow> string \<Rightarrow> string \<Rightarrow> string" where
  "final_output_path input_path output_path output_format =
     join output_path (output_filename input_path output_format)"

subsection \<open>The output path as the specification words it\<close>

text \<open>
  The base name of a path is what follows its last separator. The extension of a name
  is its part from the last period on, unless only periods stand before that period
  (leading periods belong to the name). A name is placed inside a directory by writing
  it after the directory's path, with one separator between them unless the directory's
  path is empty or already ends in one.
\<close>

definition spec_base_name :: "string \<Rightarrow> string" where
  "spec_base_name p = rev (takeWhile (\<lambda>c. c \<noteq> CHR ''/'') (rev p))"

definition spec_strip_extension :: "string \<Rightarrow> string" where
  "spec_strip_extension b =
     (let before_last_period = rev (tl (dropWhile (\<lambda>c. c \<noteq> CHR ''.'') (rev b)))
      in if CHR ''.'' \<in> set b \<and> list_ex (\<lambda>c. c \<noteq> CHR ''.'') before_last_period
         then before_last_period
         else b)"

definition spec_place_inside :: "string \<Rightarrow> string \<Rightarrow> string" where
  "spec_place_inside dir name =
     (if dir = [] \<or> last dir = CHR ''/'' then dir @ name else dir @ ''/'' @ name)"

definition spec_output_path :: "string \<Rightarrow> string \<Rightarrow> string \<Rightarrow> string" where
  "spec_output_path input_path output_dir output_format =
     spec_place_inside output_dir
       (spec_strip_extension (spec_base_name input_path) @ ''.'' @ lower output_format)"

section \<open>The outside world: file system, imaging library, standard output\<close>

text \<open>
  The program is a thin layer over \<^verbatim>\<open>os\<close>, \<^verbatim>\<open>os.path\<close> and Pillow's \<^verbatim>\<open>Image\<close>. What these
  do is not part of the repository, so they are parameters of the model: a
  \<open>library\<close> record over an abstract world \<open>'w\<close> (the file system) and an abstract type
  \<open>'i\<close> of decoded images. A call that can raise returns the exception as a value.
  Only two classes of exception matter to the handlers of the program:
  \<^verbatim>\<open>FileNotFoundError\<close>, and every other subclass of \<^verbatim>\<open>Exception\<close>. Each carries the text
  that \<^verbatim>\<open>str(e)\<close> gives. Exceptions outside \<^verbatim>\<open>Exception\<close> (a keyboard interrupt, an
  interpreter exit) are not modelled.
\<close>

datatype exn = FileNotFoundError string | OtherException string

record ('w, 'i) library =
  path_exists :: "'w \<Rightarrow> string \<Rightarrow> bool"
  path_isdir :: "'w \<Rightarrow> string \<Rightarrow> bool"
  path_isfile :: "'w \<Rightarrow> string \<Rightarrow> bool"
  os_listdir :: "'w \<Rightarrow> string \<Rightarrow> exn + string list"
  os_makedirs :: "'w \<Rightarrow> string \<Rightarrow> 'w \<times> exn option"
  image_open :: "'w \<Rightarrow> string \<Rightarrow> exn + 'i"
  image_convert :: "'i \<Rightarrow> string \<Rightarrow> exn + 'i"
  image_save :: "'w \<Rightarrow> 'i \<Rightarrow> string \<Rightarrow> string option \<Rightarrow> int option \<Rightarrow> 'w \<times> exn option"
  image_mode :: "'i \<Rightarrow> string"

text \<open>
  \<open>os_makedirs\<close> and \<open>image_save\<close> change the world and may raise as well, so they
  return the new world together with the exception, if any. \<open>image_save w img path fmt q\<close>
  is \<^verbatim>\<open>img.save(path)\<close> when \<open>fmt\<close> and \<open>q\<close> are \<open>None\<close> and
  \<^verbatim>\<open>img.save(path, fmt, quality = q)\<close> otherwise. The three \<^verbatim>\<open>os.path\<close> tests never raise.

  Every call to the outside and every printed line is recorded, in order, in a trace.
\<close>

datatype 'i event =
    Os_exists string
  | Os_isdir string
  | Os_isfile string
  | Os_listdir string
  | Os_makedirs string
  | Image_open string
  | Image_convert 'i string
  | Image_save 'i string "string option" "int option"
  | Print string

record ('w, 'i) state =
  world :: 'w
  trace :: "'i event list"

definition log :: "'i event \<Rightarrow> ('w, 'i) state \<Rightarrow> ('w, 'i) state" where
  "log ev s = s\<lparr>trace := trace s @ [ev]\<rparr>"

definition quoted :: "string \<Rightarrow> string" where
  "quoted x = [CHR 0x27] @ x @ [CHR 0x27]"

text \<open>The calls that change the world, as state transformers.\<close>

definition save_call ::
  "('w, 'i) library \<Rightarrow> 'i \<Rightarrow> string \<Rightarrow> string option \<Rightarrow> int option \<Rightarrow>
     ('w, 'i) state \<Rightarrow> ('w, 'i) state \<times> exn option" where
  "save_call L img path fmt q s =
     (case image_save L (world s) img path fmt q of
        (w, r) \<Rightarrow> (log (Image_save img path fmt q) (s\<lparr>world := w\<rparr>), r))"

definition makedirs_call ::
  "('w, 'i) library \<Rightarrow> string \<Rightarrow> ('w, 'i) state \<Rightarrow> ('w, 'i) state \<times> exn option" where
  "makedirs_call L path s =
     (case os_makedirs L (world s) path of
        (w, r) \<Rightarrow> (log (Os_makedirs path) (s\<lparr>world := w\<rparr>), r))"

section \<open>The single-file converter\<close>

text \<open>
  The status lines of \<^verbatim>\<open>convert_image\<close> (lines 26, 29, 32 and 34).
\<close>

definition converted_line :: "string \<Rightarrow> string \<Rightarrow> string" where
  "converted_line input_path final_path =
     ''Converted '' @ quoted input_path @ '' to '' @ quoted final_path"

definition unsupported_line :: "string \<Rightarrow> string" where
  "unsupported_line fmt = ''Unsupported output format: '' @ fmt"

definition not_found_line :: "string \<Rightarrow> string" where
  "not_found_line input_path = ''Error: Input file '' @ quoted input_path @ '' not found.''"

definition error_line :: "string \<Rightarrow> string \<Rightarrow> string" where
  "error_line input_path cause =
     ''An error occurred while processing '' @ quoted input_path @ '': '' @ cause"

text \<open>
  The body of the \<^verbatim>\<open>try\<close> (lines 16 to 29). It returns the state reached and the
  exception raised, if any.
\<close>

definition convert_image_try ::
  "('w, 'i) library \<Rightarrow> string \<Rightarrow> string \<Rightarrow> string \<Rightarrow> int \<Rightarrow>
     ('w, 'i) state \<Rightarrow> ('w, 'i) state \<times> exn option" where
  "convert_image_try L input_path output_path output_format quality s =
     (case image_open L (world s) input_path of
        Inl e \<Rightarrow> (log (Image_open input_path) s, Some e)
      | Inr img \<Rightarrow>
          (let s1 = log (Image_open input_path) s;
               final_path = final_output_path input_path output_path output_format
           in if lower output_format = ''webp'' then
                (case image_convert L img ''RGB'' of
                   Inl e \<Rightarrow> (log (Image_convert img ''RGB'') s1, Some e)
                 | Inr rgb \<Rightarrow>
                     (case save_call L rgb final_path (Some ''webp'') (Some quality)
                             (log (Image_convert img ''RGB'') s1) of
                        (s2, Some e) \<Rightarrow> (s2, Some e)
                      | (s2, None) \<Rightarrow>
                          (log (Print (converted_line input_path final_path)) s2, None)))
              else if lower output_format \<in> set [''png'', ''jpeg'', ''jpg''] then
                (case save_call L img final_path None None s1 of
                   (s2, Some e) \<Rightarrow> (s2, Some e)
                 | (s2, None) \<Rightarrow>
                     (log (Print (converted_line input_path final_path)) s2, None))
              else (log (Print (unsupported_line output_format)) s1, None)))"

text \<open>
  The handlers (lines 31 to 34): \<^verbatim>\<open>except FileNotFoundError\<close> first, then
  \<^verbatim>\<open>except Exception as e\<close>.
\<close>

definition convert_image ::
  "('w, 'i) library \<Rightarrow> string \<Rightarrow> string \<Rightarrow> string \<Rightarrow> int \<Rightarrow>
     ('w, 'i) state \<Rightarrow> ('w, 'i) state \<times> exn option" where
  "convert_image L input_path output_path output_format quality s =
     (case convert_image_try L input_path output_path output_format quality s of
        (s', None) \<Rightarrow> (s', None)
      | (s', Some e) \<Rightarrow>
          (case e of
             FileNotFoundError m \<Rightarrow> (log (Print (not_found_line input_path)) s', None)
           | OtherException m \<Rightarrow> (log (Print (error_line input_path m)) s', None)))"

section \<open>The directory walker\<close>

definition created_line :: "string \<Rightarrow> string" where
  "created_line output_dir = ''Created output directory: '' @ output_dir"

definition skipping_line :: "string \<Rightarrow> string" where
  "skipping_line input_path =
     ''Skipping non-image file or unsupported format: '' @ quoted input_path"

text \<open>
  The body of the \<^verbatim>\<open>try\<close> inside the loop (lines 55 and 56): the trial
  \<^verbatim>\<open>Image.open\<close>, whose result is dropped, then \<^verbatim>\<open>convert_image\<close>.
\<close>

definition process_entry_try ::
  "('w, 'i) library \<Rightarrow> string \<Rightarrow> string \<Rightarrow> string \<Rightarrow> int \<Rightarrow>
     ('w, 'i) state \<Rightarrow> ('w, 'i) state \<times> exn option" where
  "process_entry_try L input_path output_dir output_format quality s =
     (case image_open L (world s) input_path of
        Inl e \<Rightarrow> (log (Image_open input_path) s, Some e)
      | Inr trial \<Rightarrow>
          convert_image L input_path output_dir output_format quality
            (log (Image_open input_path) s))"

text \<open>One round of the loop (lines 51 to 58), with \<^verbatim>\<open>except Exception\<close>.\<close>

definition process_entry ::
  "('w, 'i) library \<Rightarrow> string \<Rightarrow> string \<Rightarrow> string \<Rightarrow> int \<Rightarrow> string \<Rightarrow>
     ('w, 'i) state \<Rightarrow> ('w, 'i) state" where
  "process_entry L input_dir output_dir output_format quality filename s =
     (let input_path = join input_dir filename;
          s1 = log (Os_isfile input_path) s
      in if path_isfile L (world s) input_path then
           (case process_entry_try L input_path output_dir output_format quality s1 of
              (s2, None) \<Rightarrow> s2
            | (s2, Some e) \<Rightarrow> log (Print (skipping_line input_path)) s2)
         else s1)"

text \<open>The \<^verbatim>\<open>for\<close> loop over the names that \<^verbatim>\<open>os.listdir\<close> returned.\<close>

fun process_entries ::
  "('w, 'i) library \<Rightarrow> string \<Rightarrow> string \<Rightarrow> string \<Rightarrow> int \<Rightarrow> string list \<Rightarrow>
     ('w, 'i) state \<Rightarrow> ('w, 'i) state" where
  "process_entries L input_dir output_dir output_format quality [] s = s"
| "process_entries L input_dir output_dir output_format quality (filename # rest) s =
     process_entries L input_dir output_dir output_format quality rest
       (process_entry L input_dir output_dir output_format quality filename s)"

text \<open>
  \<^verbatim>\<open>process_directory\<close> (lines 46 to 58). Neither \<^verbatim>\<open>os.makedirs\<close> nor \<^verbatim>\<open>os.listdir\<close>
  stands inside a \<^verbatim>\<open>try\<close>: an exception of theirs leaves the function.
\<close>

definition process_directory ::
  "('w, 'i) library \<Rightarrow> string \<Rightarrow> string \<Rightarrow> string \<Rightarrow> int \<Rightarrow>
     ('w, 'i) state \<Rightarrow> ('w, 'i) state \<times> exn option" where
  "process_directory L input_dir output_dir output_format quality s =
     (case (if \<not> path_exists L (world s) output_dir then
              (case makedirs_call L output_dir (log (Os_exists output_dir) s) of
                 (s1, Some e) \<Rightarrow> (s1, Some e)
               | (s1, None) \<Rightarrow> (log (Print (created_line output_dir)) s1, None))
            else (log (Os_exists output_dir) s, None)) of
        (s2, Some e) \<Rightarrow> (s2, Some e)
      | (s2, None) \<Rightarrow>
          (case os_listdir L (world s2) input_dir of
             Inl e \<Rightarrow> (log (Os_listdir input_dir) s2, Some e)
           | Inr names \<Rightarrow>
               (process_entries L input_dir output_dir output_format quality names
                  (log (Os_listdir input_dir) s2), None)))"

section \<open>The entry point\<close>

text \<open>
  The command line as \<^verbatim>\<open>argparse\<close> hands it over: three positional strings and the
  optional \<^verbatim>\<open>--quality\<close>, declared with \<^verbatim>\<open>type = int, default = 80\<close> and nothing else
  (no \<^verbatim>\<open>choices\<close>, no range).
\<close>

record cli_args =
  arg_input_dir :: string
  arg_output_dir :: string
  arg_output_format :: string
  arg_quality :: "int option"

definition args_quality :: "cli_args \<Rightarrow> int" where
  "args_quality args = (case arg_quality args of None \<Rightarrow> 80 | Some q \<Rightarrow> q)"

definition no_input_dir_line :: "string \<Rightarrow> string" where
  "no_input_dir_line input_directory =
     ''Error: Input directory '' @ quoted input_directory @ '' does not exist.''"

text \<open>
  \<^verbatim>\<open>main\<close> (lines 69 to 81). The result \<open>None\<close> is a normal return, after which the
  interpreter exits with status 0; \<open>Some e\<close> is an exception nobody caught.
\<close>

definition main ::
  "('w, 'i) library \<Rightarrow> cli_args \<Rightarrow> ('w, 'i) state \<Rightarrow> ('w, 'i) state \<times> exn option" where
  "main L args s =
     (let input_directory = arg_input_dir args;
          output_directory = arg_output_dir args;
          output_format = lower (arg_output_format args);
          quality = args_quality args
      in if \<not> path_isdir L (world s) input_directory then
           (log (Print (no_input_dir_line input_directory))
              (log (Os_isdir input_directory) s), None)
         else
           (case process_directory L input_directory output_directory output_format quality
                   (log (Os_isdir input_directory) s) of
              (s', Some e) \<Rightarrow> (s', Some e)
            | (s', None) \<Rightarrow> (log (Print ''Image conversion process completed.'') s', None)))"

section \<open>Reading a run\<close>

text \<open>
  What a run added to the trace, and the calls of one kind among some events: the
  \<^verbatim>\<open>save\<close> calls with their arguments, and the directories listed.
\<close>

definition new_events :: "('w, 'i) state \<Rightarrow> ('w, 'i) state \<Rightarrow> 'i event list" where
  "new_events s s' = drop (length (trace s)) (trace s')"

fun saves :: "'i event list \<Rightarrow> ('i \<times> string \<times> string option \<times> int option) list" where
  "saves [] = []"
| "saves (Image_save img path fmt q # evs) = (img, path, fmt, q) # saves evs"
| "saves (ev # evs) = saves evs"

fun listed_dirs :: "'i event list \<Rightarrow> string list" where
  "listed_dirs [] = []"
| "listed_dirs (Os_listdir path # evs) = path # listed_dirs evs"
| "listed_dirs (ev # evs) = listed_dirs evs"

text \<open>
  The line the handlers of \<^verbatim>\<open>convert_image\<close> print for an exception, and the line
  that ends a conversion whose \<^verbatim>\<open>save\<close> returned \<open>r\<close>.
\<close>

definition failure_line :: "string \<Rightarrow> exn \<Rightarrow> string" where
  "failure_line input_path e =
     (case e of
        FileNotFoundError m \<Rightarrow> not_found_line input_path
      | OtherException m \<Rightarrow> error_line input_path m)"

definition outcome_line :: "string \<Rightarrow> string \<Rightarrow> exn option \<Rightarrow> string" where
  "outcome_line input_path final_path r =
     (case r of
        None \<Rightarrow> converted_line input_path final_path
      | Some e \<Rightarrow> failure_line input_path e)"

text \<open>
  The arguments of a \<^verbatim>\<open>save\<close> call as \<^verbatim>\<open>convert_image\<close> writes it for a quality \<open>q\<close>:
  \<^verbatim>\<open>save(path, "webp", quality = q)\<close> or \<^verbatim>\<open>save(path)\<close>.
\<close>

definition quality_as_given :: "int \<Rightarrow> 'i \<times> string \<times> string option \<times> int option \<Rightarrow> bool" where
  "quality_as_given q c =
     (snd (snd c) = (Some ''webp'', Some q) \<or> snd (snd c) = (None, None))"

definition save_as_written ::
  "string \<Rightarrow> int \<Rightarrow> 'i \<times> string \<times> string option \<times> int option \<Rightarrow> bool" where
  "save_as_written path q c = (fst (snd c) = path \<and> quality_as_given q c)"

subsection \<open>One round of the walker as the specification words it\<close>

text \<open>
  An entry that is not a regular file is passed over. For a regular file the walker
  attempts a trial decode: when that fails it prints the skip line and goes on without
  calling the converter; when it succeeds it calls the converter on the file.
\<close>

definition spec_walk_entry ::
  "('w, 'i) library \<Rightarrow> string \<Rightarrow> string \<Rightarrow> string \<Rightarrow> int \<Rightarrow> string \<Rightarrow>
     ('w, 'i) state \<Rightarrow> ('w, 'i) state" where
  "spec_walk_entry L input_dir output_dir output_format quality filename s =
     (let path = join input_dir filename
      in if \<not> path_isfile L (world s) path then
           s\<lparr>trace := trace s @ [Os_isfile path]\<rparr>
         else
           (case image_open L (world s) path of
              Inl e \<Rightarrow>
                s\<lparr>trace := trace s @
                    [Os_isfile path, Image_open path, Print (skipping_line path)]\<rparr>
            | Inr trial \<Rightarrow>
                fst (convert_image L path output_dir output_format quality
                       (s\<lparr>trace := trace s @ [Os_isfile path, Image_open path]\<rparr>))))"

section \<open>An instance of the outside world\<close>

text \<open>
  A small file system with a toy codec, on which the program can be run. A world holds
  the files (path to content) and the directories (path to the names it lists). A
  decoded image is just its pixel mode, and a file decodes when its content is a mode.
  Saving writes the mode under the path, and fails with \<^verbatim>\<open>FileNotFoundError\<close> when the
  path has a directory part that does not exist, as opening a file for writing does.
\<close>

record toy_world =
  toy_files :: "string \<Rightarrow> string option"
  toy_dirs :: "string \<Rightarrow> string list option"

definition no_such_file :: "string \<Rightarrow> exn" where
  "no_such_file path = FileNotFoundError (''[Errno 2] No such file or directory: '' @ quoted path)"

definition toy_open :: "toy_world \<Rightarrow> string \<Rightarrow> exn + string" where
  "toy_open w path =
     (case toy_files w path of
        None \<Rightarrow> Inl (no_such_file path)
      | Some content \<Rightarrow>
          if content \<in> set [''RGB'', ''RGBA'', ''L'', ''P'']
          then Inr content
          else Inl (OtherException (''cannot identify image file '' @ quoted path)))"

definition toy_parent :: "string \<Rightarrow> string" where
  "toy_parent path = take (nat (rfind path CHR ''/'')) path"

definition toy_save ::
  "toy_world \<Rightarrow> string \<Rightarrow> string \<Rightarrow> string option \<Rightarrow> int option \<Rightarrow> toy_world \<times> exn option" where
  "toy_save w img path fmt q =
     (if toy_parent path \<noteq> [] \<and> toy_dirs w (toy_parent path) = None
      then (w, Some (no_such_file path))
      else (w\<lparr>toy_files := (toy_files w)(path \<mapsto> img)\<rparr>, None))"

definition toy_listdir :: "toy_world \<Rightarrow> string \<Rightarrow> exn + string list" where
  "toy_listdir w path =
     (case toy_dirs w path of None \<Rightarrow> Inl (no_such_file path) | Some names \<Rightarrow> Inr names)"

definition toy_library :: "(toy_world, string) library" where
  "toy_library =
     \<lparr>path_exists = (\<lambda>w path. \<not> (toy_files w path = None \<and> toy_dirs w path = None)),
      path_isdir = (\<lambda>w path. toy_dirs w path \<noteq> None),
      path_isfile = (\<lambda>w path. toy_files w path \<noteq> None),
      os_listdir = toy_listdir,
      os_makedirs = (\<lambda>w path. (w\<lparr>toy_dirs := (toy_dirs w)(path \<mapsto> [])\<rparr>, None)),
      image_open = toy_open,
      image_convert = (\<lambda>img mode. Inr mode),
      image_save = toy_save,
      image_mode = (\<lambda>img. img)\<rparr>"

text \<open>
  The scenario of the specification: \<^verbatim>\<open>photo.png\<close> (with transparency), \<^verbatim>\<open>notes.txt\<close>
  (not an image) and \<^verbatim>\<open>logo.bmp\<close> in the input directory, and a subdirectory with an
  image of its own. The output directory does not exist yet.
\<close>

definition example_world :: toy_world where
  "example_world =
     \<lparr>toy_files =
        [''in/photo.png'' \<mapsto> ''RGBA'', ''in/notes.txt'' \<mapsto> ''some text'',
         ''in/logo.bmp'' \<mapsto> ''P'', ''in/sub/deep.png'' \<mapsto> ''L''],
      toy_dirs =
        [''in'' \<mapsto> [''photo.png'', ''notes.txt'', ''sub'', ''logo.bmp''],
         ''in/sub'' \<mapsto> [''deep.png'']]\<rparr>"

definition example_start :: "(toy_world, string) state" where
  "example_start = \<lparr>world = example_world, trace = []\<rparr>"

section \<open>Unfolding the definitions\<close>

text \<open>The equations that evaluate a run, the path functions and the instance.\<close>

lemmas run_defs =
  main_def process_directory_def process_entry_def process_entry_try_def
  convert_image_def convert_image_try_def save_call_def makedirs_call_def log_def Let_def
  args_quality_def new_events_def

lemmas path_defs =
  final_output_path_def output_filename_def join_def splitext_def splitext_loop.simps
  basename_def rfind_def lower_def lower_char_def startswith_sep_def endswith_sep_def

lemmas toy_defs =
  toy_library_def toy_open_def toy_save_def toy_listdir_def toy_parent_def no_such_file_def
  example_start_def example_world_def

section \<open>Properties of the path functions\<close>

lemma basename_spec: "basename p = spec_base_name p"
proof (cases "CHR ''/'' \<in> set p")
  case False
  then have "\<forall>x\<in>set (rev p). x \<noteq> CHR ''/''" by auto
  then have "takeWhile (\<lambda>c. c \<noteq> CHR ''/'') (rev p) = rev p"
    by (rule takeWhile_eq_all_conv[THEN iffD2])
  then have tw: "rev (takeWhile (\<lambda>c. c \<noteq> CHR ''/'') (rev p)) = p"
    by (simp only: rev_rev_ident)
  show ?thesis
    by (simp add: basename_def spec_base_name_def rfind_def tw False)
next
  case True
  let ?tw = "takeWhile (\<lambda>c. c \<noteq> CHR ''/'') (rev p)"
  have le: "length ?tw \<le> length p"
    using length_takeWhile_le[of _ "rev p"] by simp
  have "nat (rfind p CHR ''/'' + 1) = length p - length ?tw"
    using True le by (simp add: rfind_def)
  moreover have "drop (length p - length ?tw) p = rev (take (length ?tw) (rev p))"
    by (simp add: rev_take)
  moreover have "take (length ?tw) (rev p) = ?tw"
    by (metis takeWhile_eq_take)
  ultimately show ?thesis
    by (simp add: basename_def spec_base_name_def)
qed

lemma basename_no_sep: "CHR ''/'' \<notin> set (basename p)"
  unfolding basename_spec spec_base_name_def
  by (auto dest: set_takeWhileD)

text \<open>
  The loop of \<^verbatim>\<open>_splitext\<close> splits at \<open>dotIndex\<close> exactly when a character other than a
  period stands between \<open>filenameIndex\<close> and \<open>dotIndex\<close>.
\<close>

lemma splitext_loop_char:
  "dotIndex \<le> length p \<Longrightarrow>
   splitext_loop p i dotIndex =
     (if list_ex (\<lambda>c. c \<noteq> CHR ''.'') (drop i (take dotIndex p))
      then (take dotIndex p, drop dotIndex p) else (p, []))"
proof (induction p i dotIndex rule: splitext_loop.induct)
  case (1 p i d)
  show ?case
  proof (cases "i < d")
    case False
    then show ?thesis by (simp add: splitext_loop.simps[of p i d])
  next
    case True
    then have dt: "drop i (take d p) = p ! i # drop (Suc i) (take d p)"
      using 1(2) by (metis Cons_nth_drop_Suc length_take min.absorb2 nth_take)
    show ?thesis
    proof (cases "p ! i \<noteq> CHR ''.''")
      case True
      with \<open>i < d\<close> dt show ?thesis by (simp add: splitext_loop.simps[of p i d])
    next
      case False
      with \<open>i < d\<close> dt 1 show ?thesis by (simp add: splitext_loop.simps[of p i d])
    qed
  qed
qed

lemma splitext_name:
  assumes "CHR ''/'' \<notin> set b"
  shows "fst (splitext b) = spec_strip_extension b"
proof (cases "CHR ''.'' \<in> set b")
  case False
  with assms show ?thesis
    by (simp add: splitext_def rfind_def spec_strip_extension_def)
next
  case True
  let ?tw = "takeWhile (\<lambda>c. c \<noteq> CHR ''.'') (rev b)"
  let ?dw = "dropWhile (\<lambda>c. c \<noteq> CHR ''.'') (rev b)"
  have split: "rev b = ?tw @ ?dw" by simp
  from True have nonempty: "?dw \<noteq> []" by (simp add: dropWhile_eq_Nil_conv)
  then have "hd ?dw = CHR ''.''"
    using hd_dropWhile[of "\<lambda>c. c \<noteq> CHR ''.''" "rev b"] by simp
  with nonempty have dw: "?dw = CHR ''.'' # tl ?dw"
    by (cases ?dw) simp_all
  define r where "r = tl ?dw"
  have dw': "?dw = CHR ''.'' # r" using dw by (simp add: r_def)
  have "rev (rev b) = rev (?tw @ CHR ''.'' # r)"
    using split dw' by simp
  then have b: "b = rev r @ CHR ''.'' # rev ?tw"
    by simp
  have len: "length b = length r + 1 + length ?tw"
    using arg_cong[OF b, of length] by simp
  have d: "nat (rfind b CHR ''.'') = length r"
    using True len by (simp add: rfind_def)
  have gt: "rfind b CHR ''.'' > rfind b CHR ''/''"
    using True assms len by (simp add: rfind_def)
  have tk: "take (length r) b = rev r"
    by (subst b) simp
  have "fst (splitext b) = fst (splitext_loop b 0 (length r))"
    using gt d assms by (simp add: splitext_def rfind_def)
  also have "\<dots> = (if list_ex (\<lambda>c. c \<noteq> CHR ''.'') (rev r) then rev r else b)"
    using len by (simp add: splitext_loop_char tk)
  finally show ?thesis
    using True dw' by (simp add: spec_strip_extension_def)
qed

lemma strip_extension_chars: "set (spec_strip_extension b) \<subseteq> set b"
proof -
  have "set (tl xs) \<subseteq> set xs" for xs :: string
    by (cases xs) auto
  then have "set (tl (dropWhile (\<lambda>c. c \<noteq> CHR ''.'') (rev b))) \<subseteq> set (rev b)"
    using set_dropWhileD by fastforce
  then show ?thesis
    by (auto simp: spec_strip_extension_def Let_def)
qed

text \<open>
  The name the converter builds never starts with a separator, so \<^verbatim>\<open>os.path.join\<close>
  never drops the output directory.
\<close>

lemma output_filename_spec:
  "output_filename p f = spec_strip_extension (spec_base_name p) @ ''.'' @ lower f"
  using splitext_name[OF basename_no_sep, of p]
  by (simp add: output_filename_def basename_spec)

lemma output_filename_no_leading_sep: "\<not> startswith_sep (output_filename p f)"
proof -
  let ?stem = "spec_strip_extension (spec_base_name p)"
  have "CHR ''/'' \<notin> set ?stem"
    using strip_extension_chars[of "spec_base_name p"] basename_no_sep[of p]
    by (auto simp: basename_spec)
  then show ?thesis
    by (cases ?stem) (auto simp: output_filename_spec startswith_sep_def)
qed

lemma final_output_path_spec: "final_output_path p d f = spec_output_path p d f"
  using output_filename_no_leading_sep[of p f]
  by (simp add: final_output_path_def join_def endswith_sep_def spec_output_path_def
      spec_place_inside_def output_filename_spec)

section \<open>Properties of the single-file converter\<close>

lemma saves_append: "saves (xs @ ys) = saves xs @ saves ys"
  by (induction xs rule: saves.induct) simp_all

lemma listed_dirs_append: "listed_dirs (xs @ ys) = listed_dirs xs @ listed_dirs ys"
  by (induction xs rule: listed_dirs.induct) simp_all

lemma new_events_append: "trace s' = trace s @ evs \<Longrightarrow> new_events s s' = evs"
  by (simp add: new_events_def)

text \<open>The four ways a conversion can go, each with the state it ends in.\<close>

lemma convert_image_open_failed:
  assumes "image_open L (world s) p = Inl e"
  shows "convert_image L p d f q s =
           (s\<lparr>trace := trace s @ [Image_open p, Print (failure_line p e)]\<rparr>, None)"
  using assms
  by (simp add: convert_image_def convert_image_try_def log_def failure_line_def
      split: exn.splits)

lemma convert_image_webp_run:
  assumes "image_open L (world s) p = Inr img" and "lower f = ''webp''"
  shows "convert_image L p d f q s =
           (case image_convert L img ''RGB'' of
              Inl e \<Rightarrow>
                (s\<lparr>trace := trace s @
                     [Image_open p, Image_convert img ''RGB'', Print (failure_line p e)]\<rparr>, None)
            | Inr rgb \<Rightarrow>
                (case image_save L (world s) rgb (final_output_path p d f) (Some ''webp'') (Some q) of
                   (w, r) \<Rightarrow>
                     (s\<lparr>world := w,
                        trace := trace s @
                          [Image_open p, Image_convert img ''RGB'',
                           Image_save rgb (final_output_path p d f) (Some ''webp'') (Some q),
                           Print (outcome_line p (final_output_path p d f) r)]\<rparr>, None)))"
  using assms
  by (simp add: convert_image_def convert_image_try_def save_call_def log_def Let_def
        failure_line_def outcome_line_def
      split: exn.splits sum.splits prod.splits option.splits)

lemma convert_image_plain_run:
  assumes "image_open L (world s) p = Inr img" and "lower f \<noteq> ''webp''"
    and "lower f \<in> set [''png'', ''jpeg'', ''jpg'']"
  shows "convert_image L p d f q s =
           (case image_save L (world s) img (final_output_path p d f) None None of
              (w, r) \<Rightarrow>
                (s\<lparr>world := w,
                   trace := trace s @
                     [Image_open p, Image_save img (final_output_path p d f) None None,
                      Print (outcome_line p (final_output_path p d f) r)]\<rparr>, None))"
  using assms
  by (simp add: convert_image_def convert_image_try_def save_call_def log_def Let_def
        failure_line_def outcome_line_def
      split: exn.splits sum.splits prod.splits option.splits)

lemma convert_image_unsupported_run:
  assumes "image_open L (world s) p = Inr img" and "lower f \<noteq> ''webp''"
    and "lower f \<notin> set [''png'', ''jpeg'', ''jpg'']"
  shows "convert_image L p d f q s =
           (s\<lparr>trace := trace s @ [Image_open p, Print (unsupported_line f)]\<rparr>, None)"
  using assms
  by (simp add: convert_image_def convert_image_try_def log_def Let_def)

text \<open>No exception leaves \<^verbatim>\<open>convert_image\<close>: both handlers return normally.\<close>

lemma convert_image_returns: "snd (convert_image L p d f q s) = None"
  by (simp add: convert_image_def split: prod.splits option.splits exn.splits)

text \<open>
  A conversion only adds to the trace, and each \<^verbatim>\<open>save\<close> it makes goes to the derived
  path, either as \<^verbatim>\<open>save(path, "webp", quality = q)\<close> or as \<^verbatim>\<open>save(path)\<close>.
\<close>

lemma convert_image_events:
  "\<exists>evs. trace (fst (convert_image L p d f q s)) = trace s @ evs \<and>
         listed_dirs evs = [] \<and>
         list_all (save_as_written (final_output_path p d f) q) (saves evs)"
proof (cases "image_open L (world s) p")
  case (Inl e)
  then show ?thesis by (simp add: convert_image_open_failed)
next
  case (Inr img)
  show ?thesis
  proof (cases "lower f = ''webp''")
    case True
    show ?thesis
      by (simp add: convert_image_webp_run[OF Inr True] save_as_written_def
          quality_as_given_def split: sum.splits prod.splits)
  next
    case False
    show ?thesis
    proof (cases "lower f \<in> set [''png'', ''jpeg'', ''jpg'']")
      case True
      show ?thesis
        by (simp add: convert_image_plain_run[OF Inr False True] save_as_written_def
            quality_as_given_def split: prod.splits)
    next
      case False
      with \<open>lower f \<noteq> ''webp''\<close> show ?thesis
        by (simp add: convert_image_unsupported_run[OF Inr])
    qed
  qed
qed

text \<open>
  Claim C1. Whatever the input path, the output directory and the format string, the
  path the converter derives is the base name of the source path, its extension
  stripped, followed by a period and the lower-cased format string, placed inside the
  output directory; and every file a conversion writes is written there.
\<close>

theorem output_path_derivation:
  "final_output_path input_path output_dir output_format =
     spec_output_path input_path output_dir output_format \<and>
   list_all (\<lambda>c. fst (snd c) = spec_output_path input_path output_dir output_format)
     (saves (new_events s
        (fst (convert_image L input_path output_dir output_format quality s))))"
proof -
  obtain evs where
    tr: "trace (fst (convert_image L input_path output_dir output_format quality s)) =
           trace s @ evs"
    and sv: "list_all (save_as_written
               (final_output_path input_path output_dir output_format) quality) (saves evs)"
    using convert_image_events by blast
  have "list_all (\<lambda>c. fst (snd c) = final_output_path input_path output_dir output_format)
          (saves evs)"
    using sv by (simp add: list_all_iff save_as_written_def)
  then show ?thesis
    by (simp add: new_events_append[OF tr] final_output_path_spec)
qed

lemma toy_open_photo: "image_open toy_library (world example_start) ''in/photo.png'' = Inr ''RGBA''"
  by (simp add: toy_library_def toy_open_def example_start_def example_world_def)

theorem output_path_derivation_example:
  "spec_output_path ''in/My.Photo.PNG'' ''out'' ''WebP'' = ''out/My.Photo.webp'' \<and>
   final_output_path ''in/My.Photo.PNG'' ''out'' ''WebP'' = ''out/My.Photo.webp'' \<and>
   final_output_path ''.hidden'' ''out/'' ''jpg'' = ''out/.hidden.jpg''"
proof -
  have "spec_output_path ''in/My.Photo.PNG'' ''out'' ''WebP'' = ''out/My.Photo.webp''"
    by (simp add: spec_output_path_def spec_place_inside_def spec_strip_extension_def
        spec_base_name_def lower_def lower_char_def)
  moreover have "spec_output_path ''.hidden'' ''out/'' ''jpg'' = ''out/.hidden.jpg''"
    by (simp add: spec_output_path_def spec_place_inside_def spec_strip_extension_def
        spec_base_name_def lower_def lower_char_def)
  ultimately show ?thesis
    using
      output_path_derivation[where input_path = "''in/My.Photo.PNG''" and output_dir = "''out''"
        and output_format = "''WebP''", THEN conjunct1]
      output_path_derivation[where input_path = "''.hidden''" and output_dir = "''out/''"
        and output_format = "''jpg''", THEN conjunct1]
    by simp
qed





section \<open>Properties of the directory walker\<close>

text \<open>The three ways one round of the loop can go.\<close>

lemma process_entry_not_file:
  assumes "\<not> path_isfile L (world s) (join i name)"
  shows "process_entry L i d f q name s = s\<lparr>trace := trace s @ [Os_isfile (join i name)]\<rparr>"
  using assms by (simp add: process_entry_def log_def Let_def)

lemma process_entry_trial_failed:
  assumes "path_isfile L (world s) (join i name)"
    and "image_open L (world s) (join i name) = Inl e"
  shows "process_entry L i d f q name s =
           s\<lparr>trace := trace s @
               [Os_isfile (join i name), Image_open (join i name),
                Print (skipping_line (join i name))]\<rparr>"
  using assms by (simp add: process_entry_def process_entry_try_def log_def Let_def)

text \<open>
  The handler of the loop also stands around the call of \<^verbatim>\<open>convert_image\<close>, but no
  exception comes out of that call, so the skip line is printed for a failed trial only.
\<close>

lemma process_entry_trial_ok:
  assumes "path_isfile L (world s) (join i name)"
    and "image_open L (world s) (join i name) = Inr img"
  shows "process_entry L i d f q name s =
           fst (convert_image L (join i name) d f q
                  (s\<lparr>trace := trace s @ [Os_isfile (join i name), Image_open (join i name)]\<rparr>))"
proof -
  let ?s1 = "s\<lparr>trace := trace s @ [Os_isfile (join i name), Image_open (join i name)]\<rparr>"
  obtain s2 r where run: "convert_image L (join i name) d f q ?s1 = (s2, r)"
    by (cases "convert_image L (join i name) d f q ?s1")
  with convert_image_returns[of L "join i name" d f q ?s1] have "r = None"
    by simp
  with run assms show ?thesis
    by (simp add: process_entry_def process_entry_try_def log_def Let_def)
qed

lemma process_entry_spec:
  "process_entry L i d f q name s = spec_walk_entry L i d f q name s"
proof (cases "path_isfile L (world s) (join i name)")
  case False
  then show ?thesis
    by (simp add: process_entry_not_file spec_walk_entry_def Let_def)
next
  case True
  then show ?thesis
    by (cases "image_open L (world s) (join i name)")
       (simp_all add: process_entry_trial_failed process_entry_trial_ok spec_walk_entry_def
          Let_def)
qed

lemma process_entry_events:
  "\<exists>evs. trace (process_entry L i d f q name s) = trace s @ evs \<and>
         listed_dirs evs = [] \<and> list_all (quality_as_given q) (saves evs)"
proof (cases "path_isfile L (world s) (join i name)")
  case False
  then show ?thesis by (simp add: process_entry_not_file)
next
  case True
  show ?thesis
  proof (cases "image_open L (world s) (join i name)")
    case (Inl e)
    with True show ?thesis by (simp add: process_entry_trial_failed)
  next
    case (Inr img)
    let ?s1 = "s\<lparr>trace := trace s @ [Os_isfile (join i name), Image_open (join i name)]\<rparr>"
    obtain evs where
      tr: "trace (fst (convert_image L (join i name) d f q ?s1)) = trace ?s1 @ evs"
      and ld: "listed_dirs evs = []"
      and sv: "list_all (save_as_written (final_output_path (join i name) d f) q) (saves evs)"
      using convert_image_events by blast
    from sv have "list_all (quality_as_given q) (saves evs)"
      by (simp add: list_all_iff save_as_written_def)
    with tr ld show ?thesis
      by (simp add: process_entry_trial_ok[OF True Inr] saves_append listed_dirs_append)
  qed
qed

lemma process_entries_events:
  "\<exists>evs. trace (process_entries L i d f q names s) = trace s @ evs \<and>
         listed_dirs evs = [] \<and> list_all (quality_as_given q) (saves evs)"
proof (induction names arbitrary: s)
  case Nil
  then show ?case by simp
next
  case (Cons name names)
  obtain evs1 where
    one: "trace (process_entry L i d f q name s) = trace s @ evs1"
      "listed_dirs evs1 = []" "list_all (quality_as_given q) (saves evs1)"
    using process_entry_events by blast
  obtain evs2 where
    more: "trace (process_entries L i d f q names (process_entry L i d f q name s)) =
             trace (process_entry L i d f q name s) @ evs2"
      "listed_dirs evs2 = []" "list_all (quality_as_given q) (saves evs2)"
    using Cons.IH by blast
  from one more show ?case
    by (simp add: saves_append listed_dirs_append)
qed

text \<open>A failure in one round never stops the loop: every later name gets its round.\<close>

lemma process_entries_append:
  "process_entries L i d f q (names @ names') s =
     process_entries L i d f q names' (process_entries L i d f q names s)"
  by (induction names arbitrary: s) simp_all

lemma process_directory_events:
  "\<exists>evs. trace (fst (process_directory L i d f q s)) = trace s @ evs \<and>
         listed_dirs evs \<in> set [[], [i]] \<and> list_all (quality_as_given q) (saves evs)"
proof -
  have walk: "\<exists>evs. trace (process_entries L i d f q names (t\<lparr>trace := trace s @ pre @ [Os_listdir i]\<rparr>)) =
                 trace s @ pre @ [Os_listdir i] @ evs \<and>
               listed_dirs evs = [] \<and> list_all (quality_as_given q) (saves evs)"
    for names pre t
    using process_entries_events[of L i d f q names "t\<lparr>trace := trace s @ pre @ [Os_listdir i]\<rparr>"]
    by auto
  show ?thesis
  proof (cases "path_exists L (world s) d")
    case True
    show ?thesis
    proof (cases "os_listdir L (world s) i")
      case (Inl e)
      with True show ?thesis
        by (simp add: process_directory_def log_def)
    next
      case (Inr names)
      obtain evs where
        "trace (process_entries L i d f q names (s\<lparr>trace := trace s @ [Os_exists d] @ [Os_listdir i]\<rparr>)) =
           trace s @ [Os_exists d] @ [Os_listdir i] @ evs"
        "listed_dirs evs = []" "list_all (quality_as_given q) (saves evs)"
        using walk[where t = s and names = names and pre = "[Os_exists d]"] by auto
      with True Inr show ?thesis
        by (simp add: process_directory_def log_def saves_append listed_dirs_append)
    qed
  next
    case False
    obtain w r where mk: "os_makedirs L (world s) d = (w, r)"
      by (cases "os_makedirs L (world s) d")
    show ?thesis
    proof (cases r)
      case (Some e)
      with False mk show ?thesis
        by (simp add: process_directory_def makedirs_call_def log_def)
    next
      case None
      show ?thesis
      proof (cases "os_listdir L w i")
        case (Inl e)
        with False mk None show ?thesis
          by (simp add: process_directory_def makedirs_call_def log_def)
      next
        case (Inr names)
        obtain evs where
          "trace (process_entries L i d f q names
             (s\<lparr>world := w, trace := trace s @
                [Os_exists d, Os_makedirs d, Print (created_line d)] @ [Os_listdir i]\<rparr>)) =
             trace s @ [Os_exists d, Os_makedirs d, Print (created_line d)] @ [Os_listdir i] @ evs"
          "listed_dirs evs = []" "list_all (quality_as_given q) (saves evs)"
          using walk[where t = "s\<lparr>world := w\<rparr>" and names = names
              and pre = "[Os_exists d, Os_makedirs d, Print (created_line d)]"]
          by auto
        with False mk None Inr show ?thesis
          by (simp add: process_directory_def makedirs_call_def log_def saves_append
              listed_dirs_append)
      qed
    qed
  qed
qed

lemma process_entries_fold:
  "process_entries L i d f q names s =
     foldl (\<lambda>t name. spec_walk_entry L i d f q name t) s names"
  by (induction names arbitrary: s) (simp_all add: process_entry_spec)

text \<open>
  Claim C8. The walker lists the input directory only, and no round of its loop lists
  anything: subdirectories are not descended into. The loop is the round of the
  specification applied to the names in order: a name that is not a regular file is
  passed over; a regular file is opened on trial; a failed trial prints the skip line
  and the converter is not called; a successful one calls the converter on that file.
\<close>

theorem walker_entries:
  "process_entries L input_dir output_dir output_format quality names s =
     foldl (\<lambda>t name. spec_walk_entry L input_dir output_dir output_format quality name t)
       s names \<and>
   listed_dirs
     (new_events s (process_entries L input_dir output_dir output_format quality names s)) =
     [] \<and>
   listed_dirs
     (new_events s (fst (process_directory L input_dir output_dir output_format quality s)))
     \<in> set [[], [input_dir]]"
proof -
  obtain evs where
    "trace (process_entries L input_dir output_dir output_format quality names s) =
       trace s @ evs" and "listed_dirs evs = []"
    using process_entries_events by blast
  then have loop:
    "listed_dirs
       (new_events s (process_entries L input_dir output_dir output_format quality names s)) =
       []"
    by (simp add: new_events_def)
  obtain evs' where
    "trace (fst (process_directory L input_dir output_dir output_format quality s)) =
       trace s @ evs'" and "listed_dirs evs' \<in> set [[], [input_dir]]"
    using process_directory_events by blast
  then have whole:
    "listed_dirs
       (new_events s (fst (process_directory L input_dir output_dir output_format quality s)))
       \<in> set [[], [input_dir]]"
    by (simp add: new_events_def)
  from loop whole show ?thesis
    by (simp only: process_entries_fold simp_thms)
qed

theorem walker_entries_example:
  "new_events example_start
     (process_entries toy_library ''in'' ''in/sub'' ''png'' 80
        [''notes.txt'', ''sub'', ''photo.png''] example_start) =
     [Os_isfile ''in/notes.txt'', Image_open ''in/notes.txt'',
      Print (skipping_line ''in/notes.txt''),
      Os_isfile ''in/sub'',
      Os_isfile ''in/photo.png'', Image_open ''in/photo.png'',
      Image_open ''in/photo.png'', Image_save ''RGBA'' ''in/sub/photo.png'' None None,
      Print (converted_line ''in/photo.png'' ''in/sub/photo.png'')]"
proof -
  have "new_events example_start
     (foldl (\<lambda>t name. spec_walk_entry toy_library ''in'' ''in/sub'' ''png'' 80 name t)
        example_start [''notes.txt'', ''sub'', ''photo.png'']) =
     [Os_isfile ''in/notes.txt'', Image_open ''in/notes.txt'',
      Print (skipping_line ''in/notes.txt''),
      Os_isfile ''in/sub'',
      Os_isfile ''in/photo.png'', Image_open ''in/photo.png'',
      Image_open ''in/photo.png'', Image_save ''RGBA'' ''in/sub/photo.png'' None None,
      Print (converted_line ''in/photo.png'' ''in/sub/photo.png'')]"
    by (simp add: spec_walk_entry_def run_defs path_defs toy_defs)
  then show ?thesis
    using walker_entries[of toy_library "''in''" "''in/sub''" "''png''" 80
        "[''notes.txt'', ''sub'', ''photo.png'']" example_start]
    by simp
qed



section \<open>Properties of the entry point\<close>

text \<open>
  Claim C6. When the input directory does not exist or is not a directory,
  \<^verbatim>\<open>os.path.isdir\<close> is false, and \<^verbatim>\<open>main\<close> prints the error line and returns normally:
  the world is as it was, and neither \<^verbatim>\<open>os.makedirs\<close> nor \<^verbatim>\<open>os.listdir\<close> nor any other
  call of the walker is made.
\<close>

theorem missing_input_dir_stops_run:
  assumes "\<not> path_isdir L (world s) (arg_input_dir args)"
  shows "main L args s =
           (s\<lparr>trace := trace s @
                [Os_isdir (arg_input_dir args),
                 Print (no_input_dir_line (arg_input_dir args))]\<rparr>, None)"
  using assms by (simp add: main_def log_def Let_def)

theorem missing_input_dir_stops_run_example:
  "\<not> path_isdir toy_library (world example_start) ''in/photo.png'' \<and>
   main toy_library
     \<lparr>arg_input_dir = ''in/photo.png'', arg_output_dir = ''out'',
      arg_output_format = ''webp'', arg_quality = None\<rparr> example_start =
     (example_start\<lparr>trace :=
        [Os_isdir ''in/photo.png'', Print (no_input_dir_line ''in/photo.png'')]\<rparr>, None)"
proof -
  have not_dir: "\<not> path_isdir toy_library (world example_start) ''in/photo.png''"
    by (simp add: toy_library_def example_start_def example_world_def)
  show ?thesis
    using missing_input_dir_stops_run[of toy_library example_start
        "\<lparr>arg_input_dir = ''in/photo.png'', arg_output_dir = ''out'',
          arg_output_format = ''webp'', arg_quality = None\<rparr>"] not_dir
    by (simp add: example_start_def)
qed




section \<open>Unsupported formats\<close>

text \<open>
  With a format outside the four, a conversion opens the source and prints one line:
  the unsupported-format line when the source decodes, the line of the failure when it
  does not. The world stays as it was.
\<close>

lemma convert_image_unsupported:
  assumes "lower f \<notin> set [''webp'', ''png'', ''jpeg'', ''jpg'']"
  shows "convert_image L p d f q s =
           (s\<lparr>trace := trace s @
                [Image_open p,
                 Print (case image_open L (world s) p of
                          Inl e \<Rightarrow> failure_line p e
                        | Inr img \<Rightarrow> unsupported_line f)]\<rparr>, None)"
proof (cases "image_open L (world s) p")
  case (Inl e)
  then show ?thesis by (simp add: convert_image_open_failed)
next
  case (Inr img)
  with assms show ?thesis by (simp add: convert_image_unsupported_run)
qed

lemma process_entry_unsupported:
  assumes "lower f \<notin> set [''webp'', ''png'', ''jpeg'', ''jpg'']"
  shows "world (process_entry L i d f q name s) = world s \<and>
         (\<exists>evs. trace (process_entry L i d f q name s) = trace s @ evs \<and> saves evs = [])"
proof (cases "path_isfile L (world s) (join i name)")
  case False
  then show ?thesis by (simp add: process_entry_not_file)
next
  case True
  show ?thesis
  proof (cases "image_open L (world s) (join i name)")
    case (Inl e)
    with True show ?thesis by (simp add: process_entry_trial_failed)
  next
    case (Inr img)
    show ?thesis
      by (simp add: process_entry_trial_ok[OF True Inr] convert_image_unsupported[OF assms])
  qed
qed

lemma process_entries_unsupported:
  assumes "lower f \<notin> set [''webp'', ''png'', ''jpeg'', ''jpg'']"
  shows "world (process_entries L i d f q names s) = world s \<and>
         (\<exists>evs. trace (process_entries L i d f q names s) = trace s @ evs \<and> saves evs = [])"
proof (induction names arbitrary: s)
  case Nil
  then show ?case by simp
next
  case (Cons name names)
  let ?s1 = "process_entry L i d f q name s"
  obtain evs1 where one:
    "world ?s1 = world s" "trace ?s1 = trace s @ evs1" "saves evs1 = []"
    using process_entry_unsupported[OF assms] by blast
  obtain evs2 where more:
    "world (process_entries L i d f q names ?s1) = world ?s1"
    "trace (process_entries L i d f q names ?s1) = trace ?s1 @ evs2" "saves evs2 = []"
    using Cons.IH by blast
  have "trace (process_entries L i d f q (name # names) s) = trace s @ (evs1 @ evs2)"
    using one more by simp
  moreover have "saves (evs1 @ evs2) = []"
    using one more by (simp add: saves_append)
  moreover have "world (process_entries L i d f q (name # names) s) = world s"
    using one more by simp
  ultimately show ?case by blast
qed

text \<open>
  The claim as it is written fails when the source file is missing: the converter opens
  the source before it looks at the format, and reports the missing file.
\<close>

theorem unsupported_format_missing_source:
  "lower ''bmp'' \<notin> set [''webp'', ''png'', ''jpeg'', ''jpg''] \<and>
   convert_image toy_library ''in/gone.png'' ''in/sub'' ''bmp'' 80 example_start =
     (example_start\<lparr>trace :=
        [Image_open ''in/gone.png'', Print (not_found_line ''in/gone.png'')]\<rparr>, None) \<and>
   Print (unsupported_line ''bmp'') \<notin>
     set (trace (fst (convert_image toy_library ''in/gone.png'' ''in/sub'' ''bmp'' 80
       example_start)))"
proof -
  have run:
    "convert_image toy_library ''in/gone.png'' ''in/sub'' ''bmp'' 80 example_start =
       (example_start\<lparr>trace :=
          [Image_open ''in/gone.png'', Print (not_found_line ''in/gone.png'')]\<rparr>, None)"
    by (simp add: run_defs path_defs toy_defs)
  show ?thesis
    by (simp add: run) (simp add: lower_def lower_char_def not_found_line_def
        unsupported_line_def)
qed

text \<open>
  Claim C4, amended. For a format string that lower-cases to none of \<^verbatim>\<open>webp\<close>, \<^verbatim>\<open>png\<close>,
  \<^verbatim>\<open>jpeg\<close>, \<^verbatim>\<open>jpg\<close>, the converter writes no file and returns normally, whatever the
  input: it opens the source and prints one line, which is the unsupported-format line
  when the source decodes (and the line of the failure when it does not). The walker
  goes through all the names it was given, and the world after the whole loop is the
  world before it, with no \<^verbatim>\<open>save\<close> made.
\<close>

theorem unsupported_format_skipped:
  assumes "lower output_format \<notin> set [''webp'', ''png'', ''jpeg'', ''jpg'']"
  shows "convert_image L input_path output_dir output_format quality s =
           (s\<lparr>trace := trace s @
                [Image_open input_path,
                 Print (case image_open L (world s) input_path of
                          Inl e \<Rightarrow> failure_line input_path e
                        | Inr img \<Rightarrow> unsupported_line output_format)]\<rparr>, None) \<and>
         world (process_entries L input_dir output_dir output_format quality names s) =
           world s \<and>
         saves (new_events s
           (process_entries L input_dir output_dir output_format quality names s)) = []"
proof -
  obtain evs where
    "world (process_entries L input_dir output_dir output_format quality names s) = world s"
    "trace (process_entries L input_dir output_dir output_format quality names s) =
       trace s @ evs" "saves evs = []"
    using process_entries_unsupported[OF assms] by blast
  then show ?thesis
    by (simp add: convert_image_unsupported[OF assms] new_events_def)
qed

theorem unsupported_format_skipped_example:
  "lower ''BMP'' \<notin> set [''webp'', ''png'', ''jpeg'', ''jpg''] \<and>
   convert_image toy_library ''in/photo.png'' ''in/sub'' ''BMP'' 80 example_start =
     (example_start\<lparr>trace :=
        [Image_open ''in/photo.png'', Print (unsupported_line ''BMP'')]\<rparr>, None) \<and>
   world (process_entries toy_library ''in'' ''in/sub'' ''BMP'' 80
            [''photo.png'', ''notes.txt''] example_start) = world example_start"
proof -
  have unsupported: "lower ''BMP'' \<notin> set [''webp'', ''png'', ''jpeg'', ''jpg'']"
    by (simp add: lower_def lower_char_def)
  show ?thesis
    using unsupported_format_skipped[OF unsupported, where L = toy_library
        and input_path = "''in/photo.png''" and output_dir = "''in/sub''" and quality = 80
        and s = example_start and input_dir = "''in''"
        and names = "[''photo.png'', ''notes.txt'']"]
      toy_open_photo unsupported
    by (simp add: example_start_def)
qed

section \<open>Failures of a conversion\<close>

text \<open>
  Claim C5 holds for a missing source file (\<open>convert_image_open_failed\<close> with a
  \<^verbatim>\<open>FileNotFoundError\<close>: the not-found line), for every failure of another class
  (\<open>convert_image_open_failed\<close>, \<open>convert_image_webp_run\<close>, \<open>convert_image_plain_run\<close>: the
  error line with the text of the exception), and no failure leaves the conversion or
  stops the loop (\<open>convert_image_returns\<close>, \<open>process_entries_append\<close>). It does not hold
  for a \<^verbatim>\<open>FileNotFoundError\<close> that \<^verbatim>\<open>save\<close> raises: the first handler stands around the
  whole body, so a missing output directory is reported as a missing input file, and the
  cause is not printed. Here the source \<^verbatim>\<open>in/photo.png\<close> exists and decodes, and the
  directory \<^verbatim>\<open>out\<close> does not exist.
\<close>

theorem save_not_found_reported_as_missing_input:
  "image_open toy_library (world example_start) ''in/photo.png'' = Inr ''RGBA'' \<and>
   image_save toy_library (world example_start) ''RGBA'' ''out/photo.png'' None None =
     (world example_start, Some (no_such_file ''out/photo.png'')) \<and>
   convert_image toy_library ''in/photo.png'' ''out'' ''png'' 80 example_start =
     (example_start\<lparr>trace :=
        [Image_open ''in/photo.png'', Image_save ''RGBA'' ''out/photo.png'' None None,
         Print (not_found_line ''in/photo.png'')]\<rparr>, None)"
  by (simp add: run_defs path_defs toy_defs)

section \<open>Running a conversion twice\<close>






end
